theory Spec2Isabelle
  imports Main
begin

section \<open>The configuration module of the trading bot\<close>

text \<open>
  The module \<^verbatim>\<open>config.py\<close> runs top to bottom when it is imported: it lets
  \<^verbatim>\<open>load_dotenv()\<close> populate the process environment, reads three environment
  variables, derives the base URL and the log file path, and creates the log directory
  when the existence check says it is missing.

  The model makes the things the module touches explicit: the process environment (a map
  from names to values), the definition file \<^verbatim>\<open>load_dotenv()\<close> reads, the platform
  flavour of \<^verbatim>\<open>os.path\<close>, and the filesystem the directory step reads and writes.
\<close>

subsection \<open>The process environment\<close>

type_synonym environ = "string \<rightharpoonup> string"

text \<open>\<^verbatim>\<open>os.getenv(key)\<close>: the value, or \<^verbatim>\<open>None\<close> when the variable is absent.\<close>

definition getenv :: "environ \<Rightarrow> string \<Rightarrow> string option" where
  "getenv env key = env key"

text \<open>\<^verbatim>\<open>os.getenv(key, default)\<close>: the default is used only for an absent variable.\<close>

definition getenv_default :: "environ \<Rightarrow> string \<Rightarrow> string \<Rightarrow> string" where
  "getenv_default env key dflt = (case env key of None \<Rightarrow> dflt | Some v \<Rightarrow> v)"

text \<open>
  \<^verbatim>\<open>load_dotenv()\<close> belongs to the third-party package python-dotenv. Its effect on the
  program is the one documented for the default \<^verbatim>\<open>override=False\<close>: every binding
  of the local definition file whose name is not yet in the environment is added, and a
  variable that is already set keeps its value. The bindings parsed from the file are a
  parameter of the model; a missing file is the empty map. This is the call when it
  returns; that it can raise instead is part of the import as a whole, further down.
\<close>

definition load_dotenv :: "environ \<Rightarrow> environ \<Rightarrow> environ" where
  "load_dotenv dotenv env = (\<lambda>key. case env key of Some v \<Rightarrow> Some v | None \<Rightarrow> dotenv key)"

subsection \<open>Path handling\<close>

text \<open>
  \<^verbatim>\<open>os.path\<close> is \<^verbatim>\<open>posixpath\<close> on POSIX systems and \<^verbatim>\<open>ntpath\<close> on
  Windows. The two differ in the separator that \<^verbatim>\<open>join\<close> inserts and in the
  characters that count as separators.
\<close>

datatype platform = Posix | Nt

definition backslash :: char where
  "backslash = CHR 0x5C"

fun os_sep :: "platform \<Rightarrow> char" where
  "os_sep Posix = CHR ''/''"
| "os_sep Nt = backslash"

fun os_seps :: "platform \<Rightarrow> char list" where
  "os_seps Posix = [CHR ''/'']"
| "os_seps Nt = [backslash, CHR ''/'']"

text \<open>
  \<^verbatim>\<open>os.path.join(a, b)\<close> for two arguments without a drive letter (both arguments
  of the module are such literals): an absolute second argument replaces the first, an
  empty first argument or one that ends in a separator is extended directly, and otherwise
  the platform separator is put between the two.
\<close>

definition os_path_join :: "platform \<Rightarrow> string \<Rightarrow> string \<Rightarrow> string" where
  "os_path_join pf a b =
     (if b \<noteq> [] \<and> hd b \<in> set (os_seps pf) then b
      else if a = [] \<or> last a \<in> set (os_seps pf) then a @ b
      else a @ [os_sep pf] @ b)"

subsection \<open>The module globals\<close>

record configuration =
  BINANCE_API_KEY :: "string option"
  BINANCE_API_SECRET :: "string option"
  TESTNET :: bool
  FUTURES_BASE_URL :: string
  LOG_DIR :: string
  LOG_FILE :: string

text \<open>Lines 6 to 13 of the module, in the environment left by \<^verbatim>\<open>load_dotenv()\<close>.\<close>

definition module_globals :: "platform \<Rightarrow> environ \<Rightarrow> configuration" where
  "module_globals pf env =
     (let api_key = getenv env ''BINANCE_API_KEY'';
          api_secret = getenv env ''BINANCE_API_SECRET'';
          testnet = (getenv_default env ''TESTNET'' ''True'' = ''True'');
          base_url = (if testnet then ''https://testnet.binancefuture.com''
                      else ''https://fapi.binance.com'');
          log_dir = ''logs'';
          log_file = os_path_join pf log_dir ''bot.log''
      in \<lparr> BINANCE_API_KEY = api_key, BINANCE_API_SECRET = api_secret,
           TESTNET = testnet, FUTURES_BASE_URL = base_url,
           LOG_DIR = log_dir, LOG_FILE = log_file \<rparr>)"

subsection \<open>The filesystem\<close>

text \<open>
  A path is the list of its components, relative to the working directory of the process.
  Empty components and the component \<^verbatim>\<open>.\<close> name nothing new and are dropped; the
  component \<^verbatim>\<open>..\<close> is not interpreted (none of the module's paths has one).
\<close>

type_synonym path = "string list"

primrec split_seps :: "char list \<Rightarrow> string \<Rightarrow> string list" where
  "split_seps seps [] = [[]]"
| "split_seps seps (c # cs) =
     (if c \<in> set seps then [] # split_seps seps cs
      else (case split_seps seps cs of [] \<Rightarrow> [[c]] | w # ws \<Rightarrow> (c # w) # ws))"

definition components :: "platform \<Rightarrow> string \<Rightarrow> path" where
  "components pf s = filter (\<lambda>w. w \<noteq> [] \<and> w \<noteq> ''.'') (split_seps (os_seps pf) s)"

text \<open>
  What a path names. \<open>Directory\<close> and \<open>RegularFile\<close> are what \<^verbatim>\<open>stat\<close> reports after
  following symbolic links (\<open>RegularFile\<close> stands for every kind of entry that is not a
  directory); \<open>DanglingLink\<close> is a symbolic link whose target is missing: the name is
  taken, yet \<^verbatim>\<open>stat\<close> fails on it.
\<close>

datatype entry = Directory | RegularFile | DanglingLink

datatype os_error =
  FileExistsError | FileNotFoundError | NotADirectoryError | PermissionError | OSError

text \<open>
  The filesystem state the module can observe: the entries by path, and for each directory
  the error, if any, with which the operating system refuses to create an entry inside it
  (\<open>PermissionError\<close> for a directory that is not writable, \<open>OSError\<close> for a read-only or
  full volume). The empty path as a key of \<open>create_denied\<close> is the working directory.
\<close>

record filesystem =
  entries :: "path \<rightharpoonup> entry"
  create_denied :: "path \<rightharpoonup> os_error"

text \<open>The proper, non-empty prefixes of a path: the directories to pass through.\<close>

definition ancestors :: "path \<Rightarrow> path list" where
  "ancestors p = map (\<lambda>n. take n p) [1..<length p]"

fun walk :: "filesystem \<Rightarrow> path list \<Rightarrow> os_error option" where
  "walk fs [] = None"
| "walk fs (d # ds) =
     (case entries fs d of
        Some Directory \<Rightarrow> walk fs ds
      | Some RegularFile \<Rightarrow> Some NotADirectoryError
      | Some DanglingLink \<Rightarrow> Some FileNotFoundError
      | None \<Rightarrow> Some FileNotFoundError)"

text \<open>\<^verbatim>\<open>os.stat\<close>: the kind of the entry, or the error raised.\<close>

definition stat :: "filesystem \<Rightarrow> path \<Rightarrow> os_error + entry" where
  "stat fs p =
     (if p = [] then Inl FileNotFoundError
      else case walk fs (ancestors p) of
        Some e \<Rightarrow> Inl e
      | None \<Rightarrow>
          (case entries fs p of
             Some Directory \<Rightarrow> Inr Directory
           | Some RegularFile \<Rightarrow> Inr RegularFile
           | Some DanglingLink \<Rightarrow> Inl FileNotFoundError
           | None \<Rightarrow> Inl FileNotFoundError))"

text \<open>
  \<^verbatim>\<open>os.path.exists\<close> and \<^verbatim>\<open>os.path.isdir\<close> call \<^verbatim>\<open>os.stat\<close> and answer
  \<^verbatim>\<open>False\<close> when it raises; neither raises itself.
\<close>

definition path_exists :: "filesystem \<Rightarrow> path \<Rightarrow> bool" where
  "path_exists fs p = (case stat fs p of Inl e \<Rightarrow> False | Inr k \<Rightarrow> True)"

definition path_isdir :: "filesystem \<Rightarrow> path \<Rightarrow> bool" where
  "path_isdir fs p = (case stat fs p of Inl e \<Rightarrow> False | Inr k \<Rightarrow> k = Directory)"

text \<open>
  \<^verbatim>\<open>os.mkdir\<close>: the error it raises, in the order the system checks: the directories on
  the way, a name that is already taken (by any entry, a dangling link included), the
  permission to create.
\<close>

definition mkdir_error :: "filesystem \<Rightarrow> path \<Rightarrow> os_error option" where
  "mkdir_error fs p =
     (if p = [] then Some FileNotFoundError
      else case walk fs (ancestors p) of
        Some e \<Rightarrow> Some e
      | None \<Rightarrow>
          (if entries fs p \<noteq> None then Some FileExistsError
           else create_denied fs (butlast p)))"

text \<open>
  An operation on the filesystem returns the state it leaves and the error it raised, if
  any. A failed \<^verbatim>\<open>mkdir\<close> changes nothing.
\<close>

definition mkdir :: "filesystem \<Rightarrow> path \<Rightarrow> filesystem \<times> os_error option" where
  "mkdir fs p =
     (case mkdir_error fs p of
        Some e \<Rightarrow> (fs, Some e)
      | None \<Rightarrow> (fs\<lparr>entries := (entries fs)(p \<mapsto> Directory)\<rparr>, None))"

text \<open>
  \<^verbatim>\<open>os.makedirs(name)\<close> with the default \<^verbatim>\<open>exist_ok=False\<close>, on the reversed
  component list (the last component first, as \<^verbatim>\<open>os.path.split\<close> takes it off):
  \<^verbatim>\<open>
    head, tail = path.split(name)
    if head and tail and not path.exists(head):
        try:
            makedirs(head, exist_ok=exist_ok)
        except FileExistsError:
            pass
    try:
        mkdir(name, mode)
    except OSError:
        if not exist_ok or not path.isdir(name):
            raise
  \<close>
  With \<^verbatim>\<open>exist_ok\<close> false the last handler re-raises every error of \<^verbatim>\<open>mkdir\<close>.
  The library's two special cases, a trailing separator (an empty \<^verbatim>\<open>tail\<close>) and a
  \<^verbatim>\<open>tail\<close> equal to \<^verbatim>\<open>.\<close>, cannot arise here: \<open>components\<close> has dropped both.
  The state is threaded through: directories created before an error stay created.
\<close>

fun makedirs_rev :: "filesystem \<Rightarrow> path \<Rightarrow> filesystem \<times> os_error option" where
  "makedirs_rev fs [] = mkdir fs []"
| "makedirs_rev fs (tail # rhead) =
     (if rhead \<noteq> [] \<and> \<not> path_exists fs (rev rhead)
      then (case makedirs_rev fs rhead of
              (fs', None) \<Rightarrow> mkdir fs' (rev (tail # rhead))
            | (fs', Some e) \<Rightarrow>
                (if e = FileExistsError then mkdir fs' (rev (tail # rhead))
                 else (fs', Some e)))
      else mkdir fs (rev (tail # rhead)))"

definition makedirs :: "filesystem \<Rightarrow> path \<Rightarrow> filesystem \<times> os_error option" where
  "makedirs fs p = makedirs_rev fs (rev p)"

text \<open>The two calls as the module writes them, on path strings.\<close>

definition os_path_exists :: "platform \<Rightarrow> filesystem \<Rightarrow> string \<Rightarrow> bool" where
  "os_path_exists pf fs name = path_exists fs (components pf name)"

definition os_makedirs :: "platform \<Rightarrow> filesystem \<Rightarrow> string \<Rightarrow> filesystem \<times> os_error option" where
  "os_makedirs pf fs name = makedirs fs (components pf name)"

subsection \<open>The directory step and the whole module\<close>

text \<open>
  Lines 16 and 17:
  \<^verbatim>\<open>
    if not os.path.exists(LOG_DIR):
        os.makedirs(LOG_DIR)
  \<close>
\<close>

definition ensure_log_dir :: "platform \<Rightarrow> string \<Rightarrow> filesystem \<Rightarrow> filesystem \<times> os_error option" where
  "ensure_log_dir pf log_dir fs =
     (if \<not> os_path_exists pf fs log_dir then os_makedirs pf fs log_dir else (fs, None))"

text \<open>
  The same two lines when another process acts on the filesystem after the check and
  before the creation: \<open>other\<close> is what that process does. The module alone is the case
  \<open>other = id\<close>.
\<close>

definition ensure_log_dir_interleaved ::
  "platform \<Rightarrow> string \<Rightarrow> (filesystem \<Rightarrow> filesystem) \<Rightarrow> filesystem \<Rightarrow> filesystem \<times> os_error option" where
  "ensure_log_dir_interleaved pf log_dir other fs =
     (if \<not> os_path_exists pf fs log_dir then os_makedirs pf (other fs) log_dir
      else (fs, None))"

text \<open>
  The state of the process and its surroundings, and the run of the module once
  \<^verbatim>\<open>load_dotenv()\<close> has read the bindings \<open>dotenv\<close>: the state it leaves, and
  either the error that ends the import or the module's globals.
\<close>

record world =
  os_environ :: environ
  disk :: filesystem

definition config :: "platform \<Rightarrow> environ \<Rightarrow> world \<Rightarrow> world \<times> (os_error + configuration)" where
  "config pf dotenv w =
     (let env = load_dotenv dotenv (os_environ w);
          g = module_globals pf env;
          (fs', raised) = ensure_log_dir pf (LOG_DIR g) (disk w)
      in (\<lparr> os_environ = env, disk = fs' \<rparr>,
          case raised of Some e \<Rightarrow> Inl e | None \<Rightarrow> Inr g))"

subsection \<open>The import as a whole\<close>

text \<open>
  Line 4 can itself end the import. \<^verbatim>\<open>load_dotenv()\<close> opens the definition file it
  finds and decodes it as UTF-8: a file that the process may not read raises
  \<^verbatim>\<open>PermissionError\<close>, one that is not UTF-8 raises \<^verbatim>\<open>UnicodeDecodeError\<close>, and
  a missing file is no error and binds nothing. The module has no handler around the call,
  so either error ends the import before any variable is read.
\<close>

datatype exception = OsError os_error | KeyError | UnicodeDecodeError

datatype dotenv_file = Missing | Bindings environ | PermissionDenied | NotUtf8

definition read_dotenv :: "dotenv_file \<Rightarrow> exception + environ" where
  "read_dotenv file =
     (case file of
        Missing \<Rightarrow> Inr Map.empty
      | Bindings b \<Rightarrow> Inr b
      | PermissionDenied \<Rightarrow> Inl (OsError PermissionError)
      | NotUtf8 \<Rightarrow> Inl UnicodeDecodeError)"

text \<open>
  The reads of lines 6 to 8 with the exception they handle inside. \<^verbatim>\<open>os.environ[key]\<close>
  raises \<^verbatim>\<open>KeyError\<close> for an absent variable, and \<^verbatim>\<open>os.getenv(key, default)\<close>
  is \<^verbatim>\<open>os.environ.get(key, default)\<close>:
  \<^verbatim>\<open>
    try:
        return self[key]
    except KeyError:
        return default
  \<close>
\<close>

definition environ_getitem :: "environ \<Rightarrow> string \<Rightarrow> exception + string" where
  "environ_getitem env key = (case env key of None \<Rightarrow> Inl KeyError | Some v \<Rightarrow> Inr v)"

definition os_getenv :: "environ \<Rightarrow> string \<Rightarrow> string option \<Rightarrow> exception + string option" where
  "os_getenv env key dflt =
     (case environ_getitem env key of
        Inr v \<Rightarrow> Inr (Some v)
      | Inl e \<Rightarrow> (if e = KeyError then Inr dflt else Inl e))"

text \<open>Lines 6 to 13 with an error result for every step that calls into the library.\<close>

definition read_globals :: "platform \<Rightarrow> environ \<Rightarrow> exception + configuration" where
  "read_globals pf env =
     (case os_getenv env ''BINANCE_API_KEY'' None of
        Inl e \<Rightarrow> Inl e
      | Inr api_key \<Rightarrow>
     (case os_getenv env ''BINANCE_API_SECRET'' None of
        Inl e \<Rightarrow> Inl e
      | Inr api_secret \<Rightarrow>
     (case os_getenv env ''TESTNET'' (Some ''True'') of
        Inl e \<Rightarrow> Inl e
      | Inr flag \<Rightarrow>
          (let testnet = (flag = Some ''True'');
               base_url = (if testnet then ''https://testnet.binancefuture.com''
                           else ''https://fapi.binance.com'');
               log_dir = ''logs'';
               log_file = os_path_join pf log_dir ''bot.log''
           in Inr \<lparr> BINANCE_API_KEY = api_key, BINANCE_API_SECRET = api_secret,
                     TESTNET = testnet, FUTURES_BASE_URL = base_url,
                     LOG_DIR = log_dir, LOG_FILE = log_file \<rparr>))))"

text \<open>
  The import of the module, lines 4 to 17, for every state of the definition file: the
  first statement that raises ends it, and the state is the one reached by then.
\<close>

definition import_config ::
  "platform \<Rightarrow> dotenv_file \<Rightarrow> world \<Rightarrow> world \<times> (exception + configuration)" where
  "import_config pf file w =
     (case read_dotenv file of
        Inl e \<Rightarrow> (w, Inl e)
      | Inr b \<Rightarrow>
          (let env = load_dotenv b (os_environ w) in
           case read_globals pf env of
             Inl e \<Rightarrow> (w\<lparr>os_environ := env\<rparr>, Inl e)
           | Inr g \<Rightarrow>
               (let (fs', raised) = ensure_log_dir pf (LOG_DIR g) (disk w)
                in (\<lparr> os_environ = env, disk = fs' \<rparr>,
                    case raised of Some e \<Rightarrow> Inl (OsError e) | None \<Rightarrow> Inr g))))"

subsection \<open>Concrete states used in the examples\<close>

definition unset_environ :: environ where
  "unset_environ = Map.empty"

text \<open>
  Filesystems in which the name \<^verbatim>\<open>logs\<close> is free, a directory, a regular file or a
  dangling symbolic link; one whose working directory is not writable; the step of
  another process that creates the directory \<^verbatim>\<open>logs\<close>; and the state of a process
  with no variable set.
\<close>

definition fs_empty :: filesystem where
  "fs_empty = \<lparr> entries = Map.empty, create_denied = Map.empty \<rparr>"

definition fs_logs_dir :: filesystem where
  "fs_logs_dir = \<lparr> entries = [[''logs''] \<mapsto> Directory], create_denied = Map.empty \<rparr>"

definition fs_logs_file :: filesystem where
  "fs_logs_file = \<lparr> entries = [[''logs''] \<mapsto> RegularFile], create_denied = Map.empty \<rparr>"

definition fs_logs_dangling :: filesystem where
  "fs_logs_dangling =
     \<lparr> entries = [[''logs''] \<mapsto> DanglingLink], create_denied = Map.empty \<rparr>"

definition fs_not_writable :: filesystem where
  "fs_not_writable = \<lparr> entries = Map.empty, create_denied = [[] \<mapsto> PermissionError] \<rparr>"

definition concurrent_mkdir :: "filesystem \<Rightarrow> filesystem" where
  "concurrent_mkdir fs = fs\<lparr>entries := (entries fs)([''logs''] \<mapsto> Directory)\<rparr>"

definition world_with :: "filesystem \<Rightarrow> world" where
  "world_with fs = \<lparr> os_environ = unset_environ, disk = fs \<rparr>"

section \<open>The values read from the environment\<close>

lemma module_globals_fields:
  "BINANCE_API_KEY (module_globals pf env) = env ''BINANCE_API_KEY''"
  "BINANCE_API_SECRET (module_globals pf env) = env ''BINANCE_API_SECRET''"
  "TESTNET (module_globals pf env) = (getenv_default env ''TESTNET'' ''True'' = ''True'')"
  "FUTURES_BASE_URL (module_globals pf env) =
     (if getenv_default env ''TESTNET'' ''True'' = ''True''
      then ''https://testnet.binancefuture.com'' else ''https://fapi.binance.com'')"
  "LOG_DIR (module_globals pf env) = ''logs''"
  "LOG_FILE (module_globals pf env) = os_path_join pf ''logs'' ''bot.log''"
  by (simp_all add: module_globals_def getenv_def Let_def)

lemma getenv_default_True:
  "(getenv_default env ''TESTNET'' ''True'' = ''True'') =
     (env ''TESTNET'' = Some ''True'' \<or> env ''TESTNET'' = None)"
  by (cases "env ''TESTNET''") (simp_all add: getenv_default_def)

lemma join_logs_bot_log:
  "os_path_join pf ''logs'' ''bot.log'' = ''logs'' @ [os_sep pf] @ ''bot.log''"
  by (cases pf) (simp_all add: os_path_join_def backslash_def)

text \<open>
  Claim C1. The flag \<open>TESTNET\<close> is true exactly when the variable \<^verbatim>\<open>TESTNET\<close> is the
  literal \<^verbatim>\<open>True\<close> or is unset; the comparison is exact, so \<^verbatim>\<open>true\<close> gives false.
  The base URL is the test-network endpoint when the flag is true and the production
  endpoint when it is false, whatever the variable holds.
\<close>

theorem testnet_flag_exact:
  "TESTNET (module_globals pf env) =
     (env ''TESTNET'' = Some ''True'' \<or> env ''TESTNET'' = None)
   \<and> FUTURES_BASE_URL (module_globals pf env) =
       (if TESTNET (module_globals pf env) then ''https://testnet.binancefuture.com''
        else ''https://fapi.binance.com'')
   \<and> TESTNET (module_globals pf (env(''TESTNET'' := None)))
   \<and> TESTNET (module_globals pf (env(''TESTNET'' \<mapsto> ''True'')))
   \<and> \<not> TESTNET (module_globals pf (env(''TESTNET'' \<mapsto> ''true'')))"
  by (simp add: module_globals_fields getenv_default_True)

text \<open>
  Claim C4. In every environment the base URL is one of the two literals; it is a string
  (never absent), it is not empty, and no part of it comes from the environment.
\<close>

theorem base_url_one_of_two:
  "(FUTURES_BASE_URL (module_globals pf env) = ''https://testnet.binancefuture.com''
    \<or> FUTURES_BASE_URL (module_globals pf env) = ''https://fapi.binance.com'')
   \<and> FUTURES_BASE_URL (module_globals pf env) \<noteq> []"
  by (simp add: module_globals_fields)

text \<open>
  Claim C5. Each credential field is what the environment holds under its name: absent
  (\<open>None\<close>, not the empty string) when the variable is unset, and the value itself,
  unchanged, when it is set. Reading never raises: the field is always a value.
\<close>

theorem credentials_as_given:
  "BINANCE_API_KEY (module_globals pf env) = env ''BINANCE_API_KEY''
   \<and> BINANCE_API_SECRET (module_globals pf env) = env ''BINANCE_API_SECRET''
   \<and> BINANCE_API_KEY (module_globals pf (env(''BINANCE_API_KEY'' := None))) = None
   \<and> BINANCE_API_SECRET (module_globals pf (env(''BINANCE_API_SECRET'' := None))) = None
   \<and> BINANCE_API_KEY (module_globals pf (env(''BINANCE_API_KEY'' \<mapsto> v))) = Some v
   \<and> BINANCE_API_SECRET (module_globals pf (env(''BINANCE_API_SECRET'' \<mapsto> v))) = Some v"
  by (simp add: module_globals_fields)

text \<open>
  Claim C10. A variable that is set to the empty string is not unset: the credential
  fields are then the empty string, not absent, and for \<^verbatim>\<open>TESTNET\<close> the default
  \<^verbatim>\<open>True\<close> is not used, so the flag is false and the URL is the production endpoint.
  A field is absent only when its variable is absent.
\<close>

theorem empty_string_is_not_unset:
  "BINANCE_API_KEY (module_globals pf (env(''BINANCE_API_KEY'' \<mapsto> []))) = Some []
   \<and> BINANCE_API_SECRET (module_globals pf (env(''BINANCE_API_SECRET'' \<mapsto> []))) = Some []
   \<and> (BINANCE_API_KEY (module_globals pf env) = None) = (env ''BINANCE_API_KEY'' = None)
   \<and> (BINANCE_API_SECRET (module_globals pf env) = None) = (env ''BINANCE_API_SECRET'' = None)
   \<and> getenv_default (env(''TESTNET'' \<mapsto> [])) ''TESTNET'' ''True'' = []
   \<and> \<not> TESTNET (module_globals pf (env(''TESTNET'' \<mapsto> [])))
   \<and> FUTURES_BASE_URL (module_globals pf (env(''TESTNET'' \<mapsto> []))) =
       ''https://fapi.binance.com''"
  by (simp add: module_globals_fields getenv_default_def)

text \<open>
  Claim C6, as the specification states it: the log file path is the literal
  \<^verbatim>\<open>logs/bot.log\<close> bit for bit. It fails where \<^verbatim>\<open>os.path\<close> is \<^verbatim>\<open>ntpath\<close>:
  \<^verbatim>\<open>os.path.join\<close> inserts a backslash there.
\<close>

theorem log_file_nt_counterexample:
  "LOG_FILE (module_globals Nt unset_environ) \<noteq> ''logs/bot.log''"
  by (simp add: module_globals_fields join_logs_bot_log backslash_def)

text \<open>
  Claim C6, amended. In every environment the log directory is the literal \<^verbatim>\<open>logs\<close>
  and the log file path is \<^verbatim>\<open>os.path.join\<close> of the directory and \<^verbatim>\<open>bot.log\<close>:
  the two literals with the platform's separator between them, which is
  \<^verbatim>\<open>logs/bot.log\<close> on a POSIX system and \<^verbatim>\<open>logs\bot.log\<close> on Windows. Neither
  value depends on the environment variables.
\<close>

theorem log_file_joined:
  "LOG_DIR (module_globals pf env) = ''logs''
   \<and> LOG_FILE (module_globals pf env) =
       os_path_join pf (LOG_DIR (module_globals pf env)) ''bot.log''
   \<and> LOG_FILE (module_globals pf env) = ''logs'' @ [os_sep pf] @ ''bot.log''
   \<and> LOG_FILE (module_globals Posix env) = ''logs/bot.log''
   \<and> LOG_FILE (module_globals Nt env) = ''logs'' @ [backslash] @ ''bot.log''
   \<and> LOG_DIR (module_globals pf env) = LOG_DIR (module_globals pf env')
   \<and> LOG_FILE (module_globals pf env) = LOG_FILE (module_globals pf env')"
  by (simp add: module_globals_fields join_logs_bot_log)

section \<open>The filesystem operations\<close>

lemma walk_None_iff:
  "walk fs ds = None \<longleftrightarrow> (\<forall>d\<in>set ds. entries fs d = Some Directory)"
  by (induction ds) (auto split: option.splits entry.splits)

lemma ancestors_single: "ancestors [c] = []"
  by (simp add: ancestors_def)

lemma ancestors_pair: "ancestors [a, b] = [[a]]"
  by (simp add: ancestors_def upt_rec)

lemma set_ancestors: "set (ancestors p) = {take n p | n. 1 \<le> n \<and> n < length p}"
  by (auto simp: ancestors_def)

text \<open>A successful \<^verbatim>\<open>mkdir\<close> found every directory on the way and a free name.\<close>

lemma mkdir_ok:
  "mkdir fs p = (fs', None) \<Longrightarrow>
     p \<noteq> [] \<and> walk fs (ancestors p) = None \<and> entries fs p = None
     \<and> fs' = fs\<lparr>entries := (entries fs)(p \<mapsto> Directory)\<rparr>"
  by (auto simp: mkdir_def mkdir_error_def split: option.splits if_splits)

text \<open>Every successful run of \<^verbatim>\<open>makedirs\<close> ends with a successful \<^verbatim>\<open>mkdir\<close> of the whole path.\<close>

lemma makedirs_rev_ends_with_mkdir:
  "makedirs_rev fs q = (fs', None) \<Longrightarrow> \<exists>fs0. mkdir fs0 (rev q) = (fs', None)"
  by (cases q) (auto split: if_splits prod.splits option.splits)

lemma mkdir_makes_dirs:
  assumes ok: "mkdir fs p = (fs', None)" and n: "0 < n" "n \<le> length p"
  shows "path_isdir fs' (take n p)"
proof -
  from mkdir_ok [OF ok] have p: "p \<noteq> []"
    and w: "walk fs (ancestors p) = None"
    and fs': "fs' = fs\<lparr>entries := (entries fs)(p \<mapsto> Directory)\<rparr>" by auto
  have anc: "entries fs' (take m p) = Some Directory" if "1 \<le> m" "m < length p" for m
  proof -
    from that have "take m p \<in> set (ancestors p)" by (auto simp: set_ancestors)
    with w have "entries fs (take m p) = Some Directory" by (simp add: walk_None_iff)
    moreover from that have "take m p \<noteq> p"
      by (metis length_take min.absorb2 less_imp_le nat_neq_iff)
    ultimately show ?thesis by (simp add: fs')
  qed
  have full: "entries fs' p = Some Directory" by (simp add: fs')
  let ?q = "take n p"
  have q: "?q \<noteq> []" using n p by auto
  have "walk fs' (ancestors ?q) = None"
  proof -
    have "entries fs' d = Some Directory" if "d \<in> set (ancestors ?q)" for d
    proof -
      from that obtain m where m: "1 \<le> m" "m < length ?q" "d = take m ?q"
        by (auto simp: set_ancestors)
      from n have len: "length ?q = n" by simp
      with m have mn: "m < n" by simp
      then have "d = take m p" using m by (simp add: min_def)
      moreover from mn n have "m < length p" by simp
      ultimately show ?thesis using anc m by simp
    qed
    then show ?thesis by (simp add: walk_None_iff)
  qed
  moreover have "entries fs' ?q = Some Directory"
  proof (cases "n = length p")
    case True
    then show ?thesis using full by simp
  next
    case False
    with n anc [of n] show ?thesis by simp
  qed
  ultimately show ?thesis using q by (simp add: path_isdir_def stat_def)
qed

text \<open>
  After a successful \<^verbatim>\<open>makedirs\<close> the path and every directory above it are
  directories: the missing parents were created.
\<close>

lemma makedirs_makes_dirs:
  assumes "makedirs fs p = (fs', None)" "0 < n" "n \<le> length p"
  shows "path_isdir fs' (take n p)"
proof -
  from assms(1) obtain fs0 where "mkdir fs0 p = (fs', None)"
    using makedirs_rev_ends_with_mkdir [of fs "rev p" fs'] by (auto simp: makedirs_def)
  then show ?thesis using assms(2,3) by (rule mkdir_makes_dirs)
qed

subsection \<open>The path of the log directory\<close>

text \<open>The literal \<^verbatim>\<open>logs\<close> is one component on either platform, so its parent is the
  working directory and \<^verbatim>\<open>makedirs\<close> has no parent to create.\<close>

lemma components_logs: "components pf ''logs'' = [''logs'']"
  by (cases pf) (simp_all add: components_def backslash_def)

lemma path_exists_single:
  "path_exists fs [c] = (entries fs [c] = Some Directory \<or> entries fs [c] = Some RegularFile)"
  by (auto simp: path_exists_def stat_def ancestors_single split: option.splits entry.splits)

lemma path_isdir_single: "path_isdir fs [c] = (entries fs [c] = Some Directory)"
  by (auto simp: path_isdir_def stat_def ancestors_single split: option.splits entry.splits)

lemma makedirs_single: "makedirs fs [c] = mkdir fs [c]"
  by (simp add: makedirs_def)

lemma mkdir_error_single:
  "mkdir_error fs [c] =
     (if entries fs [c] \<noteq> None then Some FileExistsError else create_denied fs [])"
  by (simp add: mkdir_error_def ancestors_single)

lemma mkdir_single:
  "mkdir fs [c] =
     (if entries fs [c] \<noteq> None then (fs, Some FileExistsError)
      else case create_denied fs [] of
        Some e \<Rightarrow> (fs, Some e)
      | None \<Rightarrow> (fs\<lparr>entries := (entries fs)([c] \<mapsto> Directory)\<rparr>, None))"
  by (simp add: mkdir_def mkdir_error_single)

lemma makedirs_var_logs:
  "makedirs fs_empty [''var'', ''logs''] =
     (\<lparr> entries = [[''var''] \<mapsto> Directory, [''var'', ''logs''] \<mapsto> Directory],
        create_denied = Map.empty \<rparr>, None)"
  by (simp add: makedirs_def path_exists_single mkdir_single mkdir_def mkdir_error_def
      ancestors_single ancestors_pair fs_empty_def)

section \<open>The directory step and the run of the module\<close>

lemma load_dotenv_idem: "load_dotenv d (load_dotenv d env) = load_dotenv d env"
  by (rule ext) (simp add: load_dotenv_def split: option.splits)

lemma load_dotenv_no_file: "load_dotenv Map.empty env = env"
  by (rule ext) (simp add: load_dotenv_def split: option.splits)

lemma load_dotenv_unset: "load_dotenv unset_environ unset_environ = unset_environ"
  by (simp add: unset_environ_def load_dotenv_no_file)

lemma ensure_log_dir_logs:
  "ensure_log_dir pf ''logs'' fs =
     (if path_exists fs [''logs''] then (fs, None) else mkdir fs [''logs''])"
  by (simp add: ensure_log_dir_def os_path_exists_def os_makedirs_def components_logs
      makedirs_single)

lemma ensure_interleaved_logs:
  "ensure_log_dir_interleaved pf ''logs'' other fs =
     (if path_exists fs [''logs''] then (fs, None) else mkdir (other fs) [''logs''])"
  by (simp add: ensure_log_dir_interleaved_def os_path_exists_def os_makedirs_def
      components_logs makedirs_single)

lemma ensure_log_dir_is_interleaved_id:
  "ensure_log_dir pf log_dir fs = ensure_log_dir_interleaved pf log_dir id fs"
  by (simp add: ensure_log_dir_def ensure_log_dir_interleaved_def)

lemma config_unfold:
  "config pf dotenv w =
     (\<lparr> os_environ = load_dotenv dotenv (os_environ w),
        disk = fst (ensure_log_dir pf ''logs'' (disk w)) \<rparr>,
      case snd (ensure_log_dir pf ''logs'' (disk w)) of
        Some e \<Rightarrow> Inl e
      | None \<Rightarrow> Inr (module_globals pf (load_dotenv dotenv (os_environ w))))"
  by (simp add: config_def Let_def module_globals_fields split: prod.splits)

text \<open>What a completed run returns is the globals of lines 6 to 13.\<close>

lemma config_globals:
  "snd (config pf dotenv w) = Inr g \<Longrightarrow>
     g = module_globals pf (load_dotenv dotenv (os_environ w))
     \<and> os_environ (fst (config pf dotenv w)) = load_dotenv dotenv (os_environ w)"
  by (auto simp: config_unfold split: option.splits)

section \<open>Creating the log directory\<close>

text \<open>
  Claim C2, as the specification states it: creating the directory tolerates a directory
  that already exists, for instance one created by another process between the check and
  the creation, and raises no error. It fails: the name \<^verbatim>\<open>logs\<close> is free at the
  check, another process creates the directory, and \<^verbatim>\<open>os.makedirs\<close>, called without
  \<^verbatim>\<open>exist_ok\<close>, raises \<^verbatim>\<open>FileExistsError\<close>.
\<close>

theorem concurrent_create_counterexample:
  "\<not> os_path_exists Posix fs_empty ''logs''
   \<and> path_isdir (concurrent_mkdir fs_empty) (components Posix ''logs'')
   \<and> ensure_log_dir_interleaved Posix ''logs'' concurrent_mkdir fs_empty =
       (concurrent_mkdir fs_empty, Some FileExistsError)"
  by (simp add: ensure_interleaved_logs os_path_exists_def components_logs path_exists_single
      path_isdir_single mkdir_single fs_empty_def concurrent_mkdir_def)

text \<open>
  Claim C2, amended. The module checks with \<^verbatim>\<open>os.path.exists\<close> whether the log
  directory is there and calls \<^verbatim>\<open>os.makedirs\<close> only when it is not. An entry found by
  the check is tolerated: nothing is created, nothing changes and no error is raised. When
  the check finds nothing, the outcome is that of \<^verbatim>\<open>os.makedirs\<close> on the filesystem as
  it is at that moment: if the name is free and creation is permitted the directory exists
  afterwards; if the name has been taken since the check, \<^verbatim>\<open>FileExistsError\<close> is
  raised. A successful \<^verbatim>\<open>os.makedirs\<close> leaves the path and every directory above it
  in place, so missing parents are created. Without another process the step is the
  module's own.
\<close>

theorem check_then_create:
  assumes d: "d = LOG_DIR (module_globals pf env)"
  shows
   "(os_path_exists pf fs d \<longrightarrow> ensure_log_dir_interleaved pf d other fs = (fs, None))
    \<and> (\<not> os_path_exists pf fs d \<longrightarrow>
          ensure_log_dir_interleaved pf d other fs = os_makedirs pf (other fs) d)
    \<and> (\<not> os_path_exists pf fs d \<and> entries (other fs) (components pf d) \<noteq> None \<longrightarrow>
          ensure_log_dir_interleaved pf d other fs = (other fs, Some FileExistsError))
    \<and> (\<not> os_path_exists pf fs d \<and> entries (other fs) (components pf d) = None
          \<and> create_denied (other fs) [] = None \<longrightarrow>
          snd (ensure_log_dir_interleaved pf d other fs) = None
          \<and> path_isdir (fst (ensure_log_dir_interleaved pf d other fs)) (components pf d))
    \<and> (makedirs fs p = (fs', None) \<and> 0 < n \<and> n \<le> length p \<longrightarrow> path_isdir fs' (take n p))
    \<and> ensure_log_dir pf d fs = ensure_log_dir_interleaved pf d id fs"
proof -
  have d': "d = ''logs''" by (simp add: d module_globals_fields)
  have 1: "os_path_exists pf fs d \<longrightarrow> ensure_log_dir_interleaved pf d other fs = (fs, None)"
    by (simp add: ensure_log_dir_interleaved_def)
  have 2: "\<not> os_path_exists pf fs d \<longrightarrow>
          ensure_log_dir_interleaved pf d other fs = os_makedirs pf (other fs) d"
    by (simp add: ensure_log_dir_interleaved_def)
  have 3: "\<not> os_path_exists pf fs d \<and> entries (other fs) (components pf d) \<noteq> None \<longrightarrow>
          ensure_log_dir_interleaved pf d other fs = (other fs, Some FileExistsError)"
    by (simp add: d' ensure_interleaved_logs os_path_exists_def components_logs mkdir_single)
  have 4: "\<not> os_path_exists pf fs d \<and> entries (other fs) (components pf d) = None
          \<and> create_denied (other fs) [] = None \<longrightarrow>
          snd (ensure_log_dir_interleaved pf d other fs) = None
          \<and> path_isdir (fst (ensure_log_dir_interleaved pf d other fs)) (components pf d)"
    by (simp add: d' ensure_interleaved_logs os_path_exists_def components_logs mkdir_single
        path_isdir_single)
  have 5: "makedirs fs p = (fs', None) \<and> 0 < n \<and> n \<le> length p \<longrightarrow> path_isdir fs' (take n p)"
    using makedirs_makes_dirs by blast
  have 6: "ensure_log_dir pf d fs = ensure_log_dir_interleaved pf d id fs"
    by (rule ensure_log_dir_is_interleaved_id)
  from 1 2 3 4 5 6 show ?thesis by blast
qed

text \<open>
  The four cases at concrete filesystems: the directory is there; it appears after the
  check; the name is free; a nested path whose parent is missing.
\<close>

theorem check_then_create_witness:
  "ensure_log_dir_interleaved Posix ''logs'' id fs_logs_dir = (fs_logs_dir, None)
   \<and> ensure_log_dir_interleaved Posix ''logs'' concurrent_mkdir fs_empty =
       (concurrent_mkdir fs_empty, Some FileExistsError)
   \<and> snd (ensure_log_dir_interleaved Posix ''logs'' id fs_empty) = None
   \<and> path_isdir (fst (ensure_log_dir_interleaved Posix ''logs'' id fs_empty))
         (components Posix ''logs'')
   \<and> path_isdir (fst (makedirs fs_empty [''var'', ''logs''])) [''var'']
   \<and> path_isdir (fst (makedirs fs_empty [''var'', ''logs''])) [''var'', ''logs'']"
proof -
  let ?p = "[''var'', ''logs'']"
  let ?made = "fst (makedirs fs_empty ?p)"
  have d: "''logs'' = LOG_DIR (module_globals Posix unset_environ)"
    by (simp add: module_globals_fields)
  have ex: "os_path_exists Posix fs_logs_dir ''logs''"
    by (simp add: os_path_exists_def components_logs path_exists_single fs_logs_dir_def)
  have nex: "\<not> os_path_exists Posix fs_empty ''logs''"
    by (simp add: os_path_exists_def components_logs path_exists_single fs_empty_def)
  have taken: "entries (concurrent_mkdir fs_empty) (components Posix ''logs'') \<noteq> None"
    by (simp add: components_logs concurrent_mkdir_def)
  have free: "entries (id fs_empty) (components Posix ''logs'') = None
      \<and> create_denied (id fs_empty) [] = None"
    by (simp add: components_logs fs_empty_def)
  have made: "makedirs fs_empty ?p = (?made, None)"
    by (simp add: makedirs_var_logs)
  have a: "ensure_log_dir_interleaved Posix ''logs'' id fs_logs_dir = (fs_logs_dir, None)"
    using check_then_create [OF d, of fs_logs_dir id ?p ?made 1] ex by blast
  have b: "ensure_log_dir_interleaved Posix ''logs'' concurrent_mkdir fs_empty =
       (concurrent_mkdir fs_empty, Some FileExistsError)"
    using check_then_create [OF d, of fs_empty concurrent_mkdir ?p ?made 1] nex taken
    by blast
  have c: "snd (ensure_log_dir_interleaved Posix ''logs'' id fs_empty) = None
      \<and> path_isdir (fst (ensure_log_dir_interleaved Posix ''logs'' id fs_empty))
            (components Posix ''logs'')"
    using check_then_create [OF d, of fs_empty id ?p ?made 1] nex free by blast
  have "path_isdir ?made (take 1 ?p)"
    using check_then_create [OF d, of fs_empty id ?p ?made 1] made by simp
  then have e: "path_isdir ?made [''var'']" by simp
  have "path_isdir ?made (take 2 ?p)"
    using check_then_create [OF d, of fs_empty id ?p ?made 2] made by simp
  then have f: "path_isdir ?made ?p" by simp
  from a b c e f show ?thesis by blast
qed

section \<open>Failure of the import\<close>

lemma os_getenv_value:
  "os_getenv env key dflt = Inr (case env key of None \<Rightarrow> dflt | Some v \<Rightarrow> Some v)"
  by (simp add: os_getenv_def environ_getitem_def split: option.splits)

text \<open>No read of lines 6 to 13 raises: the only exception that can arise is handled.\<close>

lemma read_globals_total: "read_globals pf env = Inr (module_globals pf env)"
  by (simp add: read_globals_def os_getenv_value module_globals_def getenv_def
      getenv_default_def Let_def split: option.splits)

text \<open>Once the definition file has been read, the import is the run described above.\<close>

lemma import_config_read:
  "read_dotenv file = Inr b \<Longrightarrow>
     import_config pf file w =
       (fst (config pf b w),
        case snd (config pf b w) of Inl e \<Rightarrow> Inl (OsError e) | Inr g \<Rightarrow> Inr g)"
  by (simp add: import_config_def read_globals_total config_def Let_def
      split: prod.splits option.splits)

lemma import_config_unread:
  "read_dotenv file = Inl e \<Longrightarrow> import_config pf file w = (w, Inl e)"
  by (simp add: import_config_def)

text \<open>
  Claim C3, as the specification states it: directory creation is the only operation of
  the loader that can fail. It fails at line 4: with a definition file that is not UTF-8
  the import ends with \<^verbatim>\<open>UnicodeDecodeError\<close> and leaves everything as it was, in a
  filesystem where the name \<^verbatim>\<open>logs\<close> is free and creating the directory would have
  succeeded.
\<close>

theorem undecodable_dotenv_counterexample:
  "snd (import_config Posix NotUtf8 (world_with fs_empty)) = Inl UnicodeDecodeError
   \<and> fst (import_config Posix NotUtf8 (world_with fs_empty)) = world_with fs_empty
   \<and> \<not> os_path_exists Posix (disk (world_with fs_empty)) ''logs''
   \<and> snd (os_makedirs Posix (disk (world_with fs_empty)) ''logs'') = None"
  by (simp add: import_config_def read_dotenv_def os_path_exists_def os_makedirs_def
      components_logs path_exists_single makedirs_single mkdir_single world_with_def
      fs_empty_def)

text \<open>
  Claim C3, amended. Two operations of the loader can fail: \<^verbatim>\<open>load_dotenv()\<close> reading
  the definition file, and the creation of the log directory. The import ends with an
  error exactly when the file cannot be read, or it can, the existence check finds nothing
  and \<^verbatim>\<open>os.makedirs\<close> raises; the error is the one raised there, passed on
  unchanged. In every other case the import returns the globals. The steps between the
  two, reading the credentials, parsing the flag, selecting the URL and joining the path,
  have a result for every environment and never raise. In particular a working directory
  in which creation is denied ends the import with that very error, and an unreadable
  definition file ends it before anything has changed.
\<close>

theorem only_dotenv_and_directory_creation_fail:
  "((snd (import_config pf file w) = Inl e) =
      (read_dotenv file = Inl e
       \<or> (\<exists>b. read_dotenv file = Inr b)
          \<and> \<not> os_path_exists pf (disk w) ''logs''
          \<and> (\<exists>e'. snd (os_makedirs pf (disk w) ''logs'') = Some e' \<and> e = OsError e')))
   \<and> ((snd (import_config pf file w) = Inr g) =
      (\<exists>b. read_dotenv file = Inr b
        \<and> (os_path_exists pf (disk w) ''logs'' \<or> snd (os_makedirs pf (disk w) ''logs'') = None)
        \<and> g = module_globals pf (load_dotenv b (os_environ w))))
   \<and> read_globals pf env = Inr (module_globals pf env)
   \<and> (read_dotenv file = Inr b \<and> entries (disk w) [''logs''] = None
        \<and> create_denied (disk w) [] = Some e'
        \<longrightarrow> snd (import_config pf file w) = Inl (OsError e'))
   \<and> (read_dotenv file = Inl e \<longrightarrow> import_config pf file w = (w, Inl e))"
proof (cases "read_dotenv file")
  case (Inl x)
  then show ?thesis
    by (auto simp: import_config_unread read_globals_total)
next
  case (Inr b0)
  then show ?thesis
    by (auto simp: import_config_read config_unfold ensure_log_dir_def os_path_exists_def
        os_makedirs_def components_logs makedirs_single mkdir_single path_exists_single
        read_globals_total split: option.splits)
qed

text \<open>
  A working directory that is not writable, with no definition file: the permission error
  of the creation ends the import. A definition file that may not be read: its permission
  error ends the import and nothing has changed.
\<close>

theorem only_dotenv_and_directory_creation_fail_witness:
  "read_dotenv Missing = Inr unset_environ
   \<and> entries (disk (world_with fs_not_writable)) [''logs''] = None
   \<and> create_denied (disk (world_with fs_not_writable)) [] = Some PermissionError
   \<and> snd (import_config Posix Missing (world_with fs_not_writable)) =
        Inl (OsError PermissionError)
   \<and> read_dotenv PermissionDenied = Inl (OsError PermissionError)
   \<and> import_config Posix PermissionDenied (world_with fs_empty) =
        (world_with fs_empty, Inl (OsError PermissionError))"
proof -
  have r: "read_dotenv Missing = Inr unset_environ"
    by (simp add: read_dotenv_def unset_environ_def)
  have h: "entries (disk (world_with fs_not_writable)) [''logs''] = None
      \<and> create_denied (disk (world_with fs_not_writable)) [] = Some PermissionError"
    by (simp add: world_with_def fs_not_writable_def)
  have u: "read_dotenv PermissionDenied = Inl (OsError PermissionError)"
    by (simp add: read_dotenv_def)
  have a: "snd (import_config Posix Missing (world_with fs_not_writable)) =
        Inl (OsError PermissionError)"
    using only_dotenv_and_directory_creation_fail
      [of Posix Missing "world_with fs_not_writable" "OsError PermissionError"
          "module_globals Posix unset_environ" unset_environ unset_environ PermissionError]
      r h by blast
  have b: "import_config Posix PermissionDenied (world_with fs_empty) =
        (world_with fs_empty, Inl (OsError PermissionError))"
    using only_dotenv_and_directory_creation_fail
      [of Posix PermissionDenied "world_with fs_empty" "OsError PermissionError"
          "module_globals Posix unset_environ" unset_environ unset_environ PermissionError]
      u by blast
  from r h u a b show ?thesis by blast
qed

section \<open>The log directory after the run\<close>

text \<open>
  Claim C7 says that after a run that completes without error the log directory exists,
  whatever the filesystem was before, and the comment on line 15 of the module says the
  same. The run below starts where \<^verbatim>\<open>logs\<close> is a regular file: the existence check is
  satisfied, the run completes and returns the globals, the filesystem is unchanged, and
  \<^verbatim>\<open>logs\<close> is not a directory.
\<close>

theorem config_keeps_regular_file:
  "snd (config Posix unset_environ (world_with fs_logs_file)) =
       Inr (module_globals Posix unset_environ)
   \<and> disk (fst (config Posix unset_environ (world_with fs_logs_file))) = fs_logs_file
   \<and> \<not> path_isdir (disk (fst (config Posix unset_environ (world_with fs_logs_file))))
         (components Posix ''logs'')"
  by (simp add: config_unfold ensure_log_dir_logs path_exists_single path_isdir_single
      components_logs world_with_def fs_logs_file_def load_dotenv_unset)

text \<open>
  Claim C9, as stated: whenever any entry named \<^verbatim>\<open>logs\<close> exists, creation is skipped.
  It fails for an entry that \<^verbatim>\<open>os.path.exists\<close> does not see: a dangling symbolic link
  takes the name, the check answers false, creation is attempted and the run ends with
  \<^verbatim>\<open>FileExistsError\<close>.
\<close>

theorem dangling_link_not_skipped_counterexample:
  "entries fs_logs_dangling [''logs''] = Some DanglingLink
   \<and> snd (config Posix unset_environ (world_with fs_logs_dangling)) = Inl FileExistsError"
  by (simp add: config_unfold ensure_log_dir_logs path_exists_single mkdir_single
      world_with_def fs_logs_dangling_def)

text \<open>
  Claim C9, amended. The existence check does not tell a directory from another entry it
  resolves: whenever \<^verbatim>\<open>logs\<close> names a directory or a non-directory entry (anything but a
  dangling symbolic link), the check is satisfied, creation is skipped, the filesystem is
  left as it was and the run completes with the globals. The log directory exists
  afterwards only if that entry was a directory; for a regular file the run completes and
  there is no log directory.
\<close>

theorem existence_check_skips_creation:
  assumes "entries (disk w) [''logs''] = Some k" and "k \<noteq> DanglingLink"
  shows "os_path_exists pf (disk w) ''logs''
     \<and> config pf dotenv w =
         (\<lparr> os_environ = load_dotenv dotenv (os_environ w), disk = disk w \<rparr>,
          Inr (module_globals pf (load_dotenv dotenv (os_environ w))))
     \<and> path_isdir (disk (fst (config pf dotenv w))) (components pf ''logs'') = (k = Directory)"
proof -
  from assms have ex: "path_exists (disk w) [''logs'']"
    by (cases k) (simp_all add: path_exists_single)
  then show ?thesis using assms
    by (simp add: config_unfold ensure_log_dir_logs os_path_exists_def components_logs
        path_isdir_single)
qed

theorem existence_check_skips_creation_witness:
  "entries (disk (world_with fs_logs_file)) [''logs''] = Some RegularFile
   \<and> RegularFile \<noteq> DanglingLink
   \<and> os_path_exists Posix (disk (world_with fs_logs_file)) ''logs''
   \<and> config Posix unset_environ (world_with fs_logs_file) =
       (world_with fs_logs_file, Inr (module_globals Posix unset_environ))
   \<and> \<not> path_isdir (disk (fst (config Posix unset_environ (world_with fs_logs_file))))
         (components Posix ''logs'')"
proof -
  have e: "entries (disk (world_with fs_logs_file)) [''logs''] = Some RegularFile"
    by (simp add: world_with_def fs_logs_file_def)
  have k: "RegularFile \<noteq> DanglingLink" by simp
  note t = existence_check_skips_creation [OF e k, of Posix unset_environ]
  from t have ex: "os_path_exists Posix (disk (world_with fs_logs_file)) ''logs''"
    by blast
  from t have run: "config Posix unset_environ (world_with fs_logs_file) =
       (world_with fs_logs_file, Inr (module_globals Posix unset_environ))"
    by (simp add: world_with_def load_dotenv_unset)
  from t have nodir:
    "\<not> path_isdir (disk (fst (config Posix unset_environ (world_with fs_logs_file))))
         (components Posix ''logs'')"
    by blast
  from e k ex run nodir show ?thesis by blast
qed

section \<open>Running the module again\<close>

text \<open>
  Claim C8. Loading is idempotent: when a first run has completed and the log directory is
  present after it, a second run with the same definition file, started from the state the
  first one left (or, in a fresh process, from the original environment and the filesystem
  the first one left), raises no error, changes nothing and returns the same globals.
\<close>

theorem config_idempotent:
  assumes first: "config pf dotenv w = (w', Inr g)"
    and present: "path_isdir (disk w') (components pf (LOG_DIR g))"
  shows "config pf dotenv w' = (w', Inr g)
         \<and> config pf dotenv \<lparr> os_environ = os_environ w, disk = disk w' \<rparr> = (w', Inr g)"
proof -
  let ?env = "load_dotenv dotenv (os_environ w)"
  from first have env': "os_environ w' = ?env"
    by (auto simp: config_unfold)
  from first have g: "g = module_globals pf ?env"
    by (auto simp: config_unfold split: option.splits)
  from present have "path_exists (disk w') [''logs'']"
    by (simp add: g module_globals_fields components_logs path_exists_single path_isdir_single)
  then have skip: "ensure_log_dir pf ''logs'' (disk w') = (disk w', None)"
    by (simp add: ensure_log_dir_logs)
  have w': "w' = \<lparr> os_environ = ?env, disk = disk w' \<rparr>"
    using env' by (cases w') simp
  show ?thesis
    using w' by (simp add: config_unfold skip env' load_dotenv_idem g)
qed

text \<open>A first run that creates the directory, and the second run after it.\<close>

theorem config_idempotent_witness:
  "config Posix unset_environ (world_with fs_empty) =
      (world_with fs_logs_dir, Inr (module_globals Posix unset_environ))
   \<and> path_isdir (disk (world_with fs_logs_dir))
        (components Posix (LOG_DIR (module_globals Posix unset_environ)))
   \<and> config Posix unset_environ (world_with fs_logs_dir) =
      (world_with fs_logs_dir, Inr (module_globals Posix unset_environ))"
proof -
  have first: "config Posix unset_environ (world_with fs_empty) =
      (world_with fs_logs_dir, Inr (module_globals Posix unset_environ))"
    by (simp add: config_unfold ensure_log_dir_logs path_exists_single mkdir_single
        world_with_def fs_empty_def fs_logs_dir_def load_dotenv_unset)
  have present: "path_isdir (disk (world_with fs_logs_dir))
        (components Posix (LOG_DIR (module_globals Posix unset_environ)))"
    by (simp add: module_globals_fields components_logs path_isdir_single world_with_def
        fs_logs_dir_def)
  from config_idempotent [OF first present] first present show ?thesis by simp
qed

end
